theory Spec2Isabelle
  imports Main
begin

section \<open>The Windows installer of setup-swift (src/windows-install.ts)\<close>

text \<open>
  The file under verification is the newest revision of \<^verbatim>\<open>windows-install.ts\<close>
  (the second document of src/src/windows-install.ts, lines 107-338; line numbers
  below are lines of that file). Two older revisions of the same file are kept beside
  it (lines 1-106 and src/unnamed/part_001); they are mentioned where they differ.

  The functions are asynchronous procedures that call the GitHub Actions toolkit
  (\<^verbatim>\<open>@actions/core\<close>, \<^verbatim>\<open>tool-cache\<close>, \<^verbatim>\<open>io\<close>, \<^verbatim>\<open>exec\<close>), the \<^verbatim>\<open>gpg\<close> module and Node
  built-ins. A run is modelled as the list of the calls it makes to the toolkit and to
  \<^verbatim>\<open>gpg\<close>, in order, paired with how it ends: \<open>Inr\<close> for a normal return,
  \<open>Inl\<close> for an exception (a rejected promise) that leaves the function. What the
  outside world answers to each call is read from an environment record.
\<close>

subsection \<open>Errors, events and actions\<close>

datatype error = Error string | TypeError string | SyntaxError string

datatype event =
    LogDebug string
  | LogInfo string
  | LogError string
  | SetFailed string
  | AddPath string
  | Find string string
  | SetupKeys
  | DownloadTool string
  | Verify string string
  | CacheFile string string string string
  | Which string
  | Exec string "string list"

type_synonym 'a action = "event list \<times> (error + 'a)"

definition ret :: "'a \<Rightarrow> 'a action" where
  "ret a = ([], Inr a)"

definition raise :: "error \<Rightarrow> 'a action" where
  "raise e = ([], Inl e)"

definition emit :: "event \<Rightarrow> unit action" where
  "emit e = ([e], Inr ())"

definition emits :: "event list \<Rightarrow> unit action" where
  "emits es = (es, Inr ())"

definition lift :: "error + 'a \<Rightarrow> 'a action" where
  "lift r = ([], r)"

text \<open>An awaited toolkit call: it is recorded, then resolves or rejects.\<close>

definition await :: "event \<Rightarrow> error + 'a \<Rightarrow> 'a action" where
  "await e r = ([e], r)"

text \<open>Sequencing: an exception skips everything after it and keeps what happened before.\<close>

definition io_bind :: "'a action \<Rightarrow> ('a \<Rightarrow> 'b action) \<Rightarrow> 'b action" where
  "io_bind m f =
     (case m of
        (t, Inl e) \<Rightarrow> (t, Inl e)
      | (t, Inr a) \<Rightarrow> (case f a of (t', r) \<Rightarrow> (t @ t', r)))"

definition io_then :: "unit action \<Rightarrow> 'b action \<Rightarrow> 'b action" where
  "io_then m n = io_bind m (\<lambda>_. n)"

text \<open>
  \<^verbatim>\<open>Promise.all([p, q])\<close>: both calls are started, and the result is rejected when
  either is. Which rejection is reported when both fail depends on timing; the model
  reports the first one's.
\<close>

definition promise_all2 :: "'a action \<Rightarrow> 'b action \<Rightarrow> ('a \<times> 'b) action" where
  "promise_all2 p q =
     (case (p, q) of
        ((t1, r1), (t2, r2)) \<Rightarrow>
          (t1 @ t2,
           case r1 of
             Inl e \<Rightarrow> Inl e
           | Inr a \<Rightarrow> (case r2 of Inl e \<Rightarrow> Inl e | Inr b \<Rightarrow> Inr (a, b))))"

subsection \<open>Strings\<close>

text \<open>
  A string literal of the logic cannot hold a backslash, so the Windows paths of the
  source are written with \<open>|\<close> in its place and passed through \<open>bsl\<close>. None of the
  source's literals contains \<open>|\<close>.
\<close>

definition bsl :: "string \<Rightarrow> string" where
  "bsl s = map (\<lambda>c. if c = CHR ''|'' then CHR 0x5C else c) s"

text \<open>
  \<^verbatim>\<open>String.prototype.trim\<close>: white space and line terminators are removed at both
  ends. Of the code units below 256 these are tab, line feed, vertical tab, form feed,
  carriage return, space and no-break space.
\<close>

definition is_space :: "char \<Rightarrow> bool" where
  "is_space c \<longleftrightarrow> c \<in> set [CHR 0x09, CHR 0x0A, CHR 0x0B, CHR 0x0C, CHR 0x0D, CHR 0x20, CHR 0xA0]"

definition trim :: "string \<Rightarrow> string" where
  "trim s = rev (dropWhile is_space (rev (dropWhile is_space s)))"

text \<open>A number in a template literal: the decimal digits, with a sign when negative.\<close>

fun digits :: "nat \<Rightarrow> string" where
  "digits n =
     (if n < 10 then [''0123456789'' ! n]
      else digits (n div 10) @ [''0123456789'' ! (n mod 10)])"

declare digits.simps [simp del]

definition show_int :: "int \<Rightarrow> string" where
  "show_int i = (if i < 0 then ''-'' @ digits (nat (- i)) else digits (nat i))"

text \<open>\<^verbatim>\<open>Array.prototype.join\<close>.\<close>

fun js_join :: "string \<Rightarrow> string list \<Rightarrow> string" where
  "js_join sep [] = []"
| "js_join sep [x] = x"
| "js_join sep (x # y # ys) = x @ sep @ js_join sep (y # ys)"

text \<open>
  \<^verbatim>\<open>Array.prototype.reduce\<close> called without an initial value: the first element is
  the starting accumulator and the callback runs on the others; on an empty array it
  throws.
\<close>

definition js_reduce :: "('a \<Rightarrow> 'a \<Rightarrow> 'a) \<Rightarrow> 'a list \<Rightarrow> error + 'a" where
  "js_reduce f xs =
     (case xs of
        [] \<Rightarrow> Inl (TypeError ''Reduce of empty array with no initial value'')
      | x # rest \<Rightarrow> Inr (foldl f x rest))"

subsection \<open>Data\<close>

record System =
  name :: string

record Package =
  url :: string
  name :: string
  version :: string

record VsRequirement =
  version :: string
  components :: "string list"

text \<open>
  The records that \<^verbatim>\<open>vswhere -format json\<close> prints, as the interfaces
  \<^verbatim>\<open>VisualStudio\<close> and \<^verbatim>\<open>VsProperties\<close> declare them. A field that the JSON object does
  not have is \<open>None\<close> (\<^verbatim>\<open>undefined\<close> when read).
\<close>

record VsProperties =
  setupEngineFilePath :: "string option"

record VisualStudio =
  installationPath :: "string option"
  properties :: "VsProperties option"

text \<open>
  What a child process does when \<^verbatim>\<open>exec\<close> runs it: the path of the tool as the toolkit
  has resolved it, the chunks the process writes, and the code it exits with
  (\<open>Inl\<close> when the process cannot be started).
\<close>

record exec_result =
  toolPath :: string
  stdout :: "string list"
  stderr :: "string list"
  exit_code :: "error + int"

text \<open>
  How the promise of \<^verbatim>\<open>exec\<close> settles. The source never passes
  \<^verbatim>\<open>ignoreReturnCode\<close> (lines 159, 265-269, 304, 326-329), so the toolkit resolves the
  promise with 0 when the process exits with 0 and rejects it when the process exits
  with any other code, with an error that names the tool and the code. The code that
  the source receives from \<^verbatim>\<open>exec\<close> is therefore 0, and the tests \<^verbatim>\<open>code != 0\<close> of
  lines 170 and 330 never succeed.
\<close>

definition process_failed :: "exec_result \<Rightarrow> int \<Rightarrow> error" where
  "process_failed r code =
     Error (''The process '' @ [CHR 0x27] @ toolPath r @ [CHR 0x27] @
            '' failed with exit code '' @ show_int code)"

definition status :: "exec_result \<Rightarrow> error + int" where
  "status r =
     (case exit_code r of
        Inl err \<Rightarrow> Inl err
      | Inr code \<Rightarrow> if code = 0 then Inr 0 else Inl (process_failed r code))"

text \<open>
  The environment of a run: the answers of the operating system, of the toolkit, of
  the package \<^verbatim>\<open>semver\<close> and of the modules of the repository that are not in src/
  (\<^verbatim>\<open>swift-versions\<close>, \<^verbatim>\<open>gpg\<close>). An awaited call resolves with a value (\<open>Inr\<close>) or is
  rejected (\<open>Inl\<close>); a call that is not awaited returns or throws in the same way.
  \<^item> \<^verbatim>\<open>setupKeys\<close> and \<^verbatim>\<open>verify\<close> of \<^verbatim>\<open>gpg\<close> are parameters. \<^verbatim>\<open>install\<close> does not read
    what \<^verbatim>\<open>verify\<close> resolves with, so a verification that fails is one whose promise is
    rejected.
  \<^item> \<^verbatim>\<open>toolCache.find\<close> answers \<open>None\<close> for \<^verbatim>\<open>null\<close>.
  \<^item> \<^verbatim>\<open>semver.lt\<close> is a parameter: it answers whether its first version is below its
    second, or throws on a string that is not a version.
  \<^item> \<^verbatim>\<open>path.join\<close> and the JSON functions are Node built-ins and are taken as they
    come; \<^verbatim>\<open>JSON.parse\<close> is read at the type the source assigns its result to.
\<close>

record env =
  os_platform :: string
  process_env :: "string \<Rightarrow> string option"
  fs_existsSync :: "string \<Rightarrow> bool"
  path_join :: "string list \<Rightarrow> string"
  semver_lt :: "string \<Rightarrow> string \<Rightarrow> error + bool"
  swiftPackage :: "string \<Rightarrow> System \<Rightarrow> error + Package"
  toolCache_find :: "string \<Rightarrow> string \<Rightarrow> string option"
  toolCache_downloadTool :: "string \<Rightarrow> error + string"
  toolCache_cacheFile :: "string \<Rightarrow> string \<Rightarrow> string \<Rightarrow> string \<Rightarrow> error + string"
  gpg_setupKeys :: "error + unit"
  gpg_verify :: "string \<Rightarrow> string \<Rightarrow> error + unit"
  io_which :: "string \<Rightarrow> error + string"
  exec :: "string \<Rightarrow> string list \<Rightarrow> exec_result"
  JSON_parse :: "string \<Rightarrow> error + VisualStudio list"
  JSON_stringify_array :: "VisualStudio list \<Rightarrow> string"
  JSON_stringify :: "VisualStudio option \<Rightarrow> string"

text \<open>
  \<^verbatim>\<open>exec(command, args)\<close> without listeners resolves with the exit code; with the
  listeners of \<^verbatim>\<open>setupRequiredTools\<close> every chunk of standard error is logged with
  \<^verbatim>\<open>core.error\<close> and the chunks of standard output are concatenated into the payload.
\<close>

definition exec_plain :: "env \<Rightarrow> string \<Rightarrow> string list \<Rightarrow> int action" where
  "exec_plain e cmd args = await (Exec cmd args) (status (exec e cmd args))"

definition exec_capture :: "env \<Rightarrow> string \<Rightarrow> string list \<Rightarrow> (int \<times> string) action" where
  "exec_capture e cmd args =
     (let r = exec e cmd args in
      io_then (emit (Exec cmd args))
     (io_then (emits (map LogError (stderr r)))
     (io_bind (lift (status r)) (\<lambda>code. ret (code, concat (stdout r))))))"

text \<open>
  \<^verbatim>\<open>core.addPath\<close> of the toolkit puts the directory in front of the \<^verbatim>\<open>PATH\<close> of the
  process. \<open>path_after\<close> replays the registrations of a run on a \<^verbatim>\<open>PATH\<close> given as
  the list of its entries.
\<close>

fun path_after :: "event list \<Rightarrow> string list \<Rightarrow> string list" where
  "path_after [] p = p"
| "path_after (AddPath d # t) p = path_after t (d # p)"
| "path_after (_ # t) p = path_after t p"

fun added_paths :: "event list \<Rightarrow> string list" where
  "added_paths [] = []"
| "added_paths (AddPath d # t) = d # added_paths t"
| "added_paths (_ # t) = added_paths t"

subsection \<open>Reading JavaScript values\<close>

text \<open>
  A string in a condition is true unless it is empty or missing; a missing value in a
  template literal prints as \<^verbatim>\<open>undefined\<close>; \<^verbatim>\<open>xs[0]\<close> of an empty array is
  \<^verbatim>\<open>undefined\<close>.
\<close>

definition truthy :: "string option \<Rightarrow> bool" where
  "truthy v = (case v of None \<Rightarrow> False | Some s \<Rightarrow> s \<noteq> [])"

definition js_string :: "string option \<Rightarrow> string" where
  "js_string v = (case v of None \<Rightarrow> ''undefined'' | Some s \<Rightarrow> s)"

definition first :: "'a list \<Rightarrow> 'a option" where
  "first xs = (case xs of [] \<Rightarrow> None | x # _ \<Rightarrow> Some x)"

subsection \<open>The program\<close>

text \<open>\<^verbatim>\<open>download\<close> (lines 187-197).\<close>

definition download :: "env \<Rightarrow> Package \<Rightarrow> (string \<times> string \<times> string) action" where
  \<open>download e pkg =
     io_then (emit (LogDebug ''Downloading Swift for windows''))
    (io_bind
       (promise_all2
          (await (DownloadTool (url pkg)) (toolCache_downloadTool e (url pkg)))
          (await (DownloadTool (url pkg @ ''.sig'')) (toolCache_downloadTool e (url pkg @ ''.sig''))))
       (\<lambda>(exe, signature).
     io_then (emit (LogDebug ''Swift download complete''))
    (ret (exe, signature, Package.name pkg))))\<close>

text \<open>
  \<^verbatim>\<open>getVsToolsPath\<close> (lines 200-233). The \<^verbatim>\<open>try\<close> block catches the rejection of
  \<^verbatim>\<open>io.which\<close>; in the handler \<^verbatim>\<open>path.join\<close> throws when \<^verbatim>\<open>ProgramFiles(x86)\<close> is
  not set, and that exception leaves the function.
\<close>

definition getVsToolsPath :: "env \<Rightarrow> string action" where
  \<open>getVsToolsPath e =
     (let VSWHERE_PATH = process_env e ''VSWHERE_PATH'' in
      io_bind
        (if truthy VSWHERE_PATH then
           io_then (emit (LogDebug (''Using given vswhere-path: '' @ js_string VSWHERE_PATH)))
          (ret (path_join e [js_string VSWHERE_PATH, ''vswhere.exe'']))
         else
           (case await (Which ''vswhere'') (io_which e ''vswhere'') of
              (t, Inr vsWhereInPath) \<Rightarrow>
                io_then (t, Inr ())
               (io_then (emit (LogDebug (''Found tool in PATH: '' @ vsWhereInPath)))
               (ret vsWhereInPath))
            | (t, Inl _) \<Rightarrow>
                io_then (t, Inr ())
               (case process_env e ''ProgramFiles(x86)'' of
                  None \<Rightarrow> raise (TypeError ''The "path" argument must be of type string'')
                | Some programFiles \<Rightarrow>
                    (let vswhereToolExe =
                       path_join e [programFiles, bsl ''Microsoft Visual Studio|Installer|vswhere.exe'']
                     in io_then
                          (emit (LogDebug (''Trying Visual Studio-installed path: '' @ vswhereToolExe)))
                          (ret vswhereToolExe)))))
        (\<lambda>vswhereToolExe.
           if \<not> fs_existsSync e vswhereToolExe then
             io_then (emit (SetFailed ''Action requires the path to where vswhere.exe exists''))
            (raise (Error []))
           else ret vswhereToolExe))\<close>

text \<open>\<^verbatim>\<open>vsRequirement\<close> (lines 242-250).\<close>

definition vsRequirement :: "Package \<Rightarrow> VsRequirement" where
  "vsRequirement pkg =
     \<lparr> VsRequirement.version = ''16'',
       components =
         [''Microsoft.VisualStudio.Component.VC.Tools.x86.x64'',
          ''Microsoft.VisualStudio.Component.Windows10SDK.17763''] \<rparr>"

text \<open>\<^verbatim>\<open>setupSupportFiles\<close> (lines 253-272).\<close>

definition copyCommands :: string where
  \<open>copyCommands =
     js_join ''&&''
       [bsl ''copy /Y %SDKROOT%|usr|share|ucrt.modulemap "%UniversalCRTSdkDir%|Include|%UCRTVersion%|ucrt|module.modulemap"'',
        bsl ''copy /Y %SDKROOT%|usr|share|visualc.modulemap "%VCToolsInstallDir%|include|module.modulemap"'',
        bsl ''copy /Y %SDKROOT%|usr|share|visualc.apinotes "%VCToolsInstallDir%|include|visualc.apinotes"'',
        bsl ''copy /Y %SDKROOT%|usr|share|winsdk.modulemap "%UniversalCRTSdkDir%|Include|%UCRTVersion%|um|module.modulemap"'']\<close>

definition copy_args :: "env \<Rightarrow> string \<Rightarrow> string list" where
  \<open>copy_args e vsInstallPath =
     (let nativeToolsScriptx86 = path_join e [vsInstallPath, bsl ''VC|Auxiliary|Build|vcvars32.bat'']
      in [''""'' @ nativeToolsScriptx86 @ ''"&&'' @ copyCommands @ ''"''])\<close>

definition setupSupportFiles :: "env \<Rightarrow> Package \<Rightarrow> string \<Rightarrow> unit action" where
  \<open>setupSupportFiles e pkg vsInstallPath =
     io_bind (lift (semver_lt e (Package.version pkg) ''5.4.2'')) (\<lambda>older.
       if older then
         io_bind (exec_plain e ''cmd /c'' (copy_args e vsInstallPath)) (\<lambda>code.
           emit (LogInfo (''Ran command for swift and exited with code: '' @ show_int code)))
       else ret ())\<close>

text \<open>
  \<^verbatim>\<open>setupRequiredTools\<close> (lines 284-338). \<open>vsInstallerExec\<close> is the command line of
  lines 318-323.
\<close>

definition vsInstallerExec :: "VsRequirement \<Rightarrow> string \<Rightarrow> error + string" where
  \<open>vsInstallerExec requirement installPath =
     (case js_reduce (\<lambda>previous current. previous @ '' --add "'' @ current @ ''"'')
             (components requirement) of
        Inl err \<Rightarrow> Inl err
      | Inr added \<Rightarrow>
          Inr (''modify  --installPath "'' @ installPath @ ''" '' @ added @ '' --quiet''))\<close>

definition setupRequiredTools :: "env \<Rightarrow> Package \<Rightarrow> unit action" where
  \<open>setupRequiredTools e pkg =
     io_bind (getVsToolsPath e) (\<lambda>vswhereExe.
     let requirement = vsRequirement pkg;
         vsWhereExec =
           ''-products * '' @ ''-format json -utf8 '' @
           ''-latest -version "'' @ VsRequirement.version requirement @ ''"''
     in
     io_bind (exec_capture e (''"'' @ vswhereExe @ ''" '' @ vsWhereExec) []) (\<lambda>(_, payload).
     io_then (emit (LogInfo (''got payload: '' @ payload)))
    (io_bind (lift (JSON_parse e payload)) (\<lambda>vsInstallations.
     io_then (emit (LogInfo (''array: '' @ JSON_stringify_array e vsInstallations)))
    (io_bind (lift (JSON_parse e payload)) (\<lambda>parsed.
     let vs = first parsed in
     io_then (emit (LogInfo (''obj: '' @ JSON_stringify e vs)))
    (case vs of
       None \<Rightarrow> raise (TypeError ''Cannot read properties of undefined (reading installationPath)'')
     | Some vs \<Rightarrow>
         if \<not> truthy (installationPath vs) then
           emit (SetFailed (''Unable to find any visual studio installation for version: '' @
                            VsRequirement.version requirement @ ''.''))
         else
           io_bind (lift (vsInstallerExec requirement (js_string (installationPath vs)))) (\<lambda>args.
           io_bind
             (case properties vs of
                None \<Rightarrow>
                  raise (TypeError ''Cannot read properties of undefined (reading setupEngineFilePath)'')
              | Some props \<Rightarrow> ret (js_string (setupEngineFilePath props)))
             (\<lambda>engine.
           io_bind (exec_plain e (''"'' @ engine @ ''" '' @ args) []) (\<lambda>code.
             if code \<noteq> 0 then
               emit (SetFailed
                 (''Visual Studio installer failed to install required components with exit code: '' @
                  show_int code @ ''.''))
             else setupSupportFiles e pkg (js_string (installationPath vs))))))))))))\<close>

text \<open>
  \<^verbatim>\<open>install\<close> (lines 119-185). Its body is cut at the comment lines of the
  source: \<open>fetch_installer\<close> is the branch of lines 129-143, taken when the cache
  has no installer; \<open>cache_gate\<close> is the lookup and the conditional around it
  (lines 126-146), which leaves the value of \<^verbatim>\<open>swiftPath\<close>; \<open>swiftInstallPath\<close> and
  \<open>additionalPaths\<close> are the constants of lines 160-168 and 177-180. The listeners of
  lines 150-158 are built and never passed to \<^verbatim>\<open>exec\<close>, so they have no part in the
  run.
\<close>

definition fetch_installer :: "env \<Rightarrow> Package \<Rightarrow> string \<Rightarrow> System \<Rightarrow> string action" where
  \<open>fetch_installer e swiftPkg ver system =
     io_then (emit (LogDebug ''No cached installer found''))
    (io_bind (await SetupKeys (gpg_setupKeys e)) (\<lambda>_.
     io_bind (download e swiftPkg) (\<lambda>(exe, signature, _).
     io_bind (await (Verify signature exe) (gpg_verify e signature exe)) (\<lambda>_.
     io_bind
       (await (CacheFile exe (Package.name swiftPkg) (''swift-'' @ System.name system) ver)
          (toolCache_cacheFile e exe (Package.name swiftPkg) (''swift-'' @ System.name system) ver))
       (\<lambda>exePath. ret (path_join e [exePath, Package.name swiftPkg]))))))\<close>

definition swiftLibPath :: "env \<Rightarrow> string" where
  \<open>swiftLibPath e =
     (let systemDrive = (case process_env e ''SystemDrive'' of None \<Rightarrow> ''C:'' | Some d \<Rightarrow> d)
      in path_join e [systemDrive, ''Library''])\<close>

definition swiftInstallPath :: "env \<Rightarrow> string" where
  \<open>swiftInstallPath e =
     path_join e
       [swiftLibPath e, ''Developer'', ''Toolchains'',
        ''unknown-Asserts-development.xctoolchain'', bsl ''usr|bin'']\<close>

definition additionalPaths :: "env \<Rightarrow> string list" where
  \<open>additionalPaths e =
     [path_join e [swiftLibPath e, bsl ''Swift-development|bin''],
      path_join e [swiftLibPath e, bsl ''icu-67|usr|bin'']]\<close>

definition cache_gate :: "env \<Rightarrow> Package \<Rightarrow> string \<Rightarrow> System \<Rightarrow> string action" where
  \<open>cache_gate e swiftPkg ver system =
     io_bind
       (await (Find (''swift-'' @ System.name system) ver)
          (Inr (toolCache_find e (''swift-'' @ System.name system) ver)))
       (\<lambda>swiftPath.
          case swiftPath of
            None \<Rightarrow> fetch_installer e swiftPkg ver system
          | Some cached \<Rightarrow>
              if length (trim cached) = 0 then fetch_installer e swiftPkg ver system
              else io_then (emit (LogDebug ''Cached installer found'')) (ret cached))\<close>

definition install :: "env \<Rightarrow> string \<Rightarrow> System \<Rightarrow> unit action" where
  \<open>install e ver system =
     (if os_platform e \<noteq> ''win32'' then
        emit (LogError ''Trying to run windows installer on non-windows os'')
      else
        io_bind (lift (swiftPackage e ver system)) (\<lambda>swiftPkg.
        io_bind (cache_gate e swiftPkg ver system) (\<lambda>swiftPath.
        io_then (emit (LogDebug ''Running installer''))
       (io_bind (exec_plain e (''"'' @ swiftPath @ ''" -q'') []) (\<lambda>code.
          if code \<noteq> 0 \<or> \<not> fs_existsSync e (swiftInstallPath e) then
            emit (SetFailed (''Swift installer failed with exit code: '' @ show_int code))
          else
            io_then (emit (AddPath (swiftInstallPath e)))
           (io_then (emits (map AddPath (additionalPaths e)))
           (io_then (emit (LogDebug (''Swift installed at "'' @ swiftInstallPath e @ ''"'')))
           (setupRequiredTools e swiftPkg))))))))\<close>

subsection \<open>Properties of traces\<close>

text \<open>
  \<open>precedes P Q t\<close>: no event satisfying \<open>Q\<close> occurs in \<open>t\<close> before the first event
  satisfying \<open>P\<close>; when no event satisfies \<open>P\<close>, none satisfies \<open>Q\<close>.
\<close>

fun precedes :: "(event \<Rightarrow> bool) \<Rightarrow> (event \<Rightarrow> bool) \<Rightarrow> event list \<Rightarrow> bool" where
  "precedes P Q [] = True"
| "precedes P Q (x # xs) = (if P x then True else \<not> Q x \<and> precedes P Q xs)"

fun is_Exec :: "event \<Rightarrow> bool" where
  "is_Exec (Exec _ _) = True"
| "is_Exec _ = False"

fun is_CacheFile :: "event \<Rightarrow> bool" where
  "is_CacheFile (CacheFile _ _ _ _) = True"
| "is_CacheFile _ = False"

fun is_Verify :: "event \<Rightarrow> bool" where
  "is_Verify (Verify _ _) = True"
| "is_Verify _ = False"

fun is_SetFailed :: "event \<Rightarrow> bool" where
  "is_SetFailed (SetFailed _) = True"
| "is_SetFailed _ = False"

definition uses_installer :: "event \<Rightarrow> bool" where
  "uses_installer x \<longleftrightarrow> is_CacheFile x \<or> is_Exec x"

subsection \<open>Concrete runs\<close>

text \<open>
  The answers of \<^verbatim>\<open>semver.lt\<close> in the concrete runs. A version is read as the package
  reads it in strict mode: at most 256 characters; white space trimmed; an optional
  \<^verbatim>\<open>v\<close>; three numeric identifiers without leading zeros, none above
  \<^verbatim>\<open>Number.MAX_SAFE_INTEGER\<close>; an optional pre-release tag after \<^verbatim>\<open>-\<close>; optional build
  metadata after \<^verbatim>\<open>+\<close>. Versions are ordered by their three numbers; with the same
  numbers a version with a pre-release tag is below the one without, and two tags are
  compared identifier by identifier, a numeric one below an alphanumeric one. (Numeric
  identifiers of a tag are compared as numbers, exactly; JavaScript compares those of
  16 digits and more as doubles.)
\<close>

fun split_on :: "char \<Rightarrow> string \<Rightarrow> string list" where
  "split_on c [] = [[]]"
| "split_on c (x # xs) =
     (if x = c then [] # split_on c xs
      else (case split_on c xs of
              [] \<Rightarrow> [[x]]
            | w # ws \<Rightarrow> (x # w) # ws))"

definition cut_at :: "char \<Rightarrow> string \<Rightarrow> string \<times> string option" where
  "cut_at c s =
     (takeWhile (\<lambda>x. x \<noteq> c) s,
      case dropWhile (\<lambda>x. x \<noteq> c) s of [] \<Rightarrow> None | _ # rest \<Rightarrow> Some rest)"

definition is_digit :: "char \<Rightarrow> bool" where
  "is_digit c \<longleftrightarrow> (48::nat) \<le> of_char c \<and> of_char c \<le> (57::nat)"

definition is_identifier_char :: "char \<Rightarrow> bool" where
  "is_identifier_char c \<longleftrightarrow>
     is_digit c \<or> ((65::nat) \<le> of_char c \<and> of_char c \<le> (90::nat))
     \<or> ((97::nat) \<le> of_char c \<and> of_char c \<le> (122::nat)) \<or> c = CHR ''-''"

definition decimal :: "string \<Rightarrow> nat" where
  "decimal s = foldl (\<lambda>n c. 10 * n + (of_char c - 48)) (0::nat) s"

definition numeric_identifier :: "string \<Rightarrow> bool" where
  "numeric_identifier s \<longleftrightarrow>
     s \<noteq> [] \<and> list_all is_digit s \<and> (length s = 1 \<or> hd s \<noteq> CHR ''0'')"

definition prerelease_identifier :: "string \<Rightarrow> bool" where
  "prerelease_identifier s \<longleftrightarrow>
     s \<noteq> [] \<and> list_all is_identifier_char s
     \<and> (if list_all is_digit s then numeric_identifier s else True)"

definition build_identifier :: "string \<Rightarrow> bool" where
  "build_identifier s \<longleftrightarrow> s \<noteq> [] \<and> list_all is_identifier_char s"

definition max_safe_integer :: nat where
  "max_safe_integer = 9007199254740991"

definition parse_semver :: "string \<Rightarrow> error + ((nat \<times> nat \<times> nat) \<times> string list)" where
  "parse_semver s =
     (if length s > 256 then Inl (TypeError ''version is longer than 256 characters'')
      else
        (let t = trim s;
             body = (case t of [] \<Rightarrow> t | c # rest \<Rightarrow> if c = CHR ''v'' then rest else t);
             front = fst (cut_at CHR ''+'' body);
             build = snd (cut_at CHR ''+'' body);
             main = fst (cut_at CHR ''-'' front);
             pre = (case snd (cut_at CHR ''-'' front) of
                      None \<Rightarrow> []
                    | Some tag \<Rightarrow> split_on CHR ''.'' tag);
             build_ok = (case build of
                           None \<Rightarrow> True
                         | Some meta \<Rightarrow> list_all build_identifier (split_on CHR ''.'' meta))
         in case split_on CHR ''.'' main of
              [a, b, c] \<Rightarrow>
                if numeric_identifier a \<and> numeric_identifier b \<and> numeric_identifier c
                   \<and> list_all prerelease_identifier pre \<and> build_ok
                then
                  (if decimal a > max_safe_integer then Inl (TypeError ''Invalid major version'')
                   else if decimal b > max_safe_integer then Inl (TypeError ''Invalid minor version'')
                   else if decimal c > max_safe_integer then Inl (TypeError ''Invalid patch version'')
                   else Inr ((decimal a, decimal b, decimal c), pre))
                else Inl (TypeError (''Invalid Version: '' @ s))
            | _ \<Rightarrow> Inl (TypeError (''Invalid Version: '' @ s))))"

definition version_less :: "nat \<times> nat \<times> nat \<Rightarrow> nat \<times> nat \<times> nat \<Rightarrow> bool" where
  "version_less a b =
     (case (a, b) of
        ((a1, a2, a3), (b1, b2, b3)) \<Rightarrow>
          a1 < b1 \<or> (a1 = b1 \<and> (a2 < b2 \<or> (a2 = b2 \<and> a3 < b3))))"

fun string_less :: "string \<Rightarrow> string \<Rightarrow> bool" where
  "string_less [] [] = False"
| "string_less [] (y # ys) = True"
| "string_less (x # xs) [] = False"
| "string_less (x # xs) (y # ys) =
     ((of_char x :: nat) < of_char y \<or> (x = y \<and> string_less xs ys))"

definition identifier_less :: "string \<Rightarrow> string \<Rightarrow> bool" where
  "identifier_less a b =
     (if list_all is_digit a \<and> list_all is_digit b then decimal a < decimal b
      else if list_all is_digit a then True
      else if list_all is_digit b then False
      else string_less a b)"

fun tag_less :: "string list \<Rightarrow> string list \<Rightarrow> bool" where
  "tag_less [] [] = False"
| "tag_less [] (b # bs) = True"
| "tag_less (a # as) [] = False"
| "tag_less (a # as) (b # bs) = (if a = b then tag_less as bs else identifier_less a b)"

definition prerelease_less :: "string list \<Rightarrow> string list \<Rightarrow> bool" where
  "prerelease_less a b =
     (if a = [] then False else if b = [] then True else tag_less a b)"

definition semver_lt_model :: "string \<Rightarrow> string \<Rightarrow> error + bool" where
  "semver_lt_model a b =
     (case parse_semver a of
        Inl err \<Rightarrow> Inl err
      | Inr (ma, pa) \<Rightarrow>
          (case parse_semver b of
             Inl err \<Rightarrow> Inl err
           | Inr (mb, pb) \<Rightarrow> Inr (version_less ma mb \<or> (ma = mb \<and> prerelease_less pa pb))))"

text \<open>
  A Windows runner on which every step succeeds: nothing is cached, the downloads and
  the verification go through, every process exits with 0, and the query tool reports
  one Visual Studio installation, \<open>vs0\<close>, as the JSON text \<open>json0\<close>. Its
  \<^verbatim>\<open>path.join\<close> puts a backslash between the non-empty parts; its \<^verbatim>\<open>JSON.parse\<close> and
  \<^verbatim>\<open>JSON.stringify\<close> are given on the texts and values that occur in the runs below. A
  tool is resolved to itself when its path starts with a drive, \<^verbatim>\<open>cmd\<close> to the command
  interpreter, any other name to a file of the working directory. The other runs
  differ from this one in one or two answers each.
\<close>

definition join_plain :: "string list \<Rightarrow> string" where
  "join_plain ps = js_join [CHR 0x5C] (filter (\<lambda>p. p \<noteq> []) ps)"

definition vs0 :: VisualStudio where
  "vs0 = \<lparr> installationPath = Some ''VS'',
           properties = Some \<lparr> setupEngineFilePath = Some ''setup.exe'' \<rparr> \<rparr>"

definition object0 :: string where
  \<open>object0 = ''{"installationPath":"VS","properties":{"setupEngineFilePath":"setup.exe"}}''\<close>

definition json0 :: string where
  "json0 = ''['' @ object0 @ '']''"

definition parse0 :: "string \<Rightarrow> error + VisualStudio list" where
  "parse0 s =
     (if s = json0 then Inr [vs0]
      else if s = ''[]'' then Inr []
      else if s = ''[{}]'' then Inr [\<lparr> installationPath = None, properties = None \<rparr>]
      else Inl (SyntaxError ''Unexpected token in JSON''))"

definition stringify_array0 :: "VisualStudio list \<Rightarrow> string" where
  "stringify_array0 xs = (if xs = [vs0] then json0 else if xs = [] then ''[]'' else ''[{}]'')"

definition stringify0 :: "VisualStudio option \<Rightarrow> string" where
  "stringify0 v =
     (case v of None \<Rightarrow> ''undefined'' | Some x \<Rightarrow> if x = vs0 then object0 else ''{}'')"

definition command_tool :: "string \<Rightarrow> string" where
  "command_tool cmd =
     (case cmd of
        [] \<Rightarrow> []
      | c # rest \<Rightarrow>
          if c = CHR 0x22 then takeWhile (\<lambda>x. x \<noteq> CHR 0x22) rest
          else takeWhile (\<lambda>x. x \<noteq> CHR '' '') cmd)"

definition resolve0 :: "string \<Rightarrow> string" where
  "resolve0 tool =
     (if tool = ''cmd'' then bsl ''C:|Windows|system32|cmd.exe''
      else if take 2 (drop 1 tool) = bsl '':|'' then tool
      else bsl ''C:|work|'' @ tool)"

definition exits_with :: "int \<Rightarrow> string \<Rightarrow> string list \<Rightarrow> exec_result" where
  "exits_with code cmd args =
     \<lparr> toolPath = resolve0 (command_tool cmd),
       stdout = (if command_tool cmd = bsl ''C:|bin|vswhere.exe'' then [json0] else []),
       stderr = [],
       exit_code = Inr code \<rparr>"

definition windows :: System where
  "windows = \<lparr> System.name = ''windows'' \<rparr>"

definition pkg0 :: "string \<Rightarrow> Package" where
  "pkg0 v = \<lparr> url = ''https://swift.org/'' @ v, name = ''installer.exe'', version = v \<rparr>"

definition env0 :: env where
  \<open>env0 =
     \<lparr> os_platform = ''win32'',
       process_env = (\<lambda>_. None),
       fs_existsSync = (\<lambda>_. True),
       path_join = join_plain,
       semver_lt = semver_lt_model,
       swiftPackage = (\<lambda>v s. Inr (pkg0 v)),
       toolCache_find = (\<lambda>_ _. Some []),
       toolCache_downloadTool = (\<lambda>u. Inr (''tmp/'' @ u)),
       toolCache_cacheFile = (\<lambda>_ _ _ _. Inr ''cache''),
       gpg_setupKeys = Inr (),
       gpg_verify = (\<lambda>_ _. Inr ()),
       io_which = (\<lambda>tool. Inr (bsl ''C:|bin|'' @ tool @ ''.exe'')),
       exec = exits_with 0,
       JSON_parse = parse0,
       JSON_stringify_array = stringify_array0,
       JSON_stringify = stringify0 \<rparr>\<close>

text \<open>The installer is in the cache.\<close>

definition env_hit :: env where
  "env_hit = env0\<lparr> toolCache_find := (\<lambda>_ _. Some ''cached.exe'') \<rparr>"

text \<open>The signature does not verify.\<close>

definition env_bad_signature :: env where
  "env_bad_signature = env0\<lparr> gpg_verify := (\<lambda>_ _. Inl (Error ''BAD signature'')) \<rparr>"

text \<open>The query tool finds no installation and prints the empty list.\<close>

definition env_no_installation :: env where
  "env_no_installation =
     env0\<lparr> exec := (\<lambda>cmd args.
             (exits_with 0 cmd args)
               \<lparr> stdout := (if command_tool cmd = bsl ''C:|bin|vswhere.exe'' then [''[]''] else []) \<rparr>) \<rparr>"

text \<open>
  The query tool is in the directory that \<^verbatim>\<open>VSWHERE_PATH\<close> names, and no other file
  exists: a tool other than the query tool cannot be started.
\<close>

definition unable_to_locate :: "string \<Rightarrow> error" where
  "unable_to_locate tool =
     Error (''Unable to locate executable file: '' @ tool @
            ''. Please verify either the file path exists or the file can be found within a directory specified by the PATH environment variable. Also verify the file has a valid extension for an executable file.'')"

definition env_vswhere_only :: env where
  "env_vswhere_only =
     env0\<lparr> process_env := (\<lambda>k. if k = ''VSWHERE_PATH'' then Some (bsl ''C:|tools'') else None),
           fs_existsSync := (\<lambda>p. p = bsl ''C:|tools|vswhere.exe''),
           exec := (\<lambda>cmd args.
             if command_tool cmd = bsl ''C:|tools|vswhere.exe'' then
               \<lparr> toolPath = bsl ''C:|tools|vswhere.exe'', stdout = [json0], stderr = [],
                 exit_code = Inr 0 \<rparr>
             else
               \<lparr> toolPath = command_tool cmd, stdout = [], stderr = [],
                 exit_code = Inl (unable_to_locate (command_tool cmd)) \<rparr>) \<rparr>"

section \<open>Properties\<close>

subsection \<open>Auxiliary facts\<close>

lemma io_bind_Inl [simp]: "io_bind (t, Inl err) f = (t, Inl err)"
  by (simp add: io_bind_def)

lemma io_bind_Inr [simp]: "io_bind (t, Inr a) f = (t @ fst (f a), snd (f a))"
  by (simp add: io_bind_def split: prod.splits)

lemma io_then_Inl [simp]: "io_then (t, Inl err) n = (t, Inl err)"
  by (simp add: io_then_def)

lemma io_then_Inr [simp]: "io_then (t, Inr u) n = (t @ fst n, snd n)"
  by (simp add: io_then_def)

lemmas action_defs = ret_def raise_def emit_def emits_def lift_def await_def

lemmas semver_defs =
  semver_lt_model_def parse_semver_def cut_at_def numeric_identifier_def prerelease_identifier_def
  build_identifier_def is_identifier_char_def is_digit_def decimal_def max_safe_integer_def
  version_less_def prerelease_less_def identifier_less_def

lemma setupSupportFiles_trace:
  "fst (setupSupportFiles e pkg p) =
     (case semver_lt e (Package.version pkg) ''5.4.2'' of
        Inr True \<Rightarrow>
          Exec ''cmd /c'' (copy_args e p) #
          (case status (exec e ''cmd /c'' (copy_args e p)) of
             Inl _ \<Rightarrow> []
           | Inr code \<Rightarrow> [LogInfo (''Ran command for swift and exited with code: '' @ show_int code)])
      | _ \<Rightarrow> [])"
  by (simp add: setupSupportFiles_def exec_plain_def action_defs split: sum.splits bool.splits)

lemmas env_defs =
  env0_def env_hit_def env_bad_signature_def env_no_installation_def env_vswhere_only_def
  pkg0_def vs0_def object0_def json0_def parse0_def stringify_array0_def stringify0_def
  command_tool_def resolve0_def unable_to_locate_def windows_def exits_with_def join_plain_def

lemmas run_defs =
  install_def cache_gate_def fetch_installer_def download_def promise_all2_def
  setupRequiredTools_def getVsToolsPath_def setupSupportFiles_def vsInstallerExec_def
  vsRequirement_def exec_plain_def exec_capture_def status_def process_failed_def
  swiftInstallPath_def swiftLibPath_def
  additionalPaths_def copy_args_def copyCommands_def js_reduce_def
  truthy_def js_string_def first_def trim_def is_space_def bsl_def show_int_def digits.simps

text \<open>A process that exits with a code other than 0 rejects the call that ran it.\<close>

lemma status_nonzero:
  "exit_code r = Inr code \<Longrightarrow> code \<noteq> 0 \<Longrightarrow> status r = Inl (process_failed r code)"
  by (simp add: status_def)

lemma status_zero: "exit_code r = Inr 0 \<Longrightarrow> status r = Inr 0"
  by (simp add: status_def)

lemma status_resolved: "status r = Inr code \<Longrightarrow> code = 0"
  by (auto simp: status_def split: sum.splits if_splits)

lemma fst_io_bind:
  "fst (io_bind m f) = fst m @ (case snd m of Inl _ \<Rightarrow> [] | Inr a \<Rightarrow> fst (f a))"
  by (cases m) (auto simp: io_bind_def split: sum.splits prod.splits)

lemma snd_io_bind:
  "snd (io_bind m f) = (case snd m of Inl err \<Rightarrow> Inl err | Inr a \<Rightarrow> snd (f a))"
  by (cases m) (auto simp: io_bind_def split: sum.splits prod.splits)

text \<open>Registrations on \<^verbatim>\<open>PATH\<close>: only \<^verbatim>\<open>install\<close> itself makes any.\<close>

lemma added_paths_append [simp]: "added_paths (a @ b) = added_paths a @ added_paths b"
  by (induction a rule: added_paths.induct) simp_all

lemma added_paths_map_AddPath [simp]: "added_paths (map AddPath ds) = ds"
  by (induction ds) simp_all

lemma added_paths_LogError [simp]: "added_paths (map LogError xs) = []"
  by (induction xs) simp_all

lemma path_after_added: "path_after t p = rev (added_paths t) @ p"
  by (induction t p rule: path_after.induct) simp_all

lemma getVsToolsPath_no_paths: "added_paths (fst (getVsToolsPath e)) = []"
  by (auto simp: getVsToolsPath_def Let_def action_defs split: sum.splits option.splits)

lemma setupSupportFiles_no_paths: "added_paths (fst (setupSupportFiles e pkg p)) = []"
  by (auto simp: setupSupportFiles_trace split: sum.splits bool.splits)

lemma setupRequiredTools_no_paths: "added_paths (fst (setupRequiredTools e pkg)) = []"
  by (auto simp: setupRequiredTools_def Let_def fst_io_bind snd_io_bind exec_capture_def
      exec_plain_def io_then_def action_defs getVsToolsPath_no_paths setupSupportFiles_no_paths
      split: sum.splits option.splits prod.splits)

lemma download_no_paths: "added_paths (fst (download e pkg)) = []"
  by (auto simp: download_def promise_all2_def action_defs split: sum.splits prod.splits)

lemma fetch_installer_no_paths: "added_paths (fst (fetch_installer e pkg ver system)) = []"
  by (auto simp: fetch_installer_def fst_io_bind snd_io_bind io_then_def download_no_paths
      action_defs split: sum.splits prod.splits)

lemma cache_gate_no_paths: "added_paths (fst (cache_gate e pkg ver system)) = []"
  by (auto simp: cache_gate_def fetch_installer_no_paths action_defs split: option.splits)

text \<open>What \<^verbatim>\<open>install\<close> does once the installer has been located and has exited.\<close>

lemma install_after_gate:
  assumes "os_platform e = ''win32''"
    and "swiftPackage e ver system = Inr pkg"
    and "cache_gate e pkg ver system = (t, Inr swiftPath)"
    and "status (exec e (''\"'' @ swiftPath @ ''\" -q'') []) = Inr code"
  shows "install e ver system =
     (if code \<noteq> 0 \<or> \<not> fs_existsSync e (swiftInstallPath e) then
        (t @ [LogDebug ''Running installer'', Exec (''\"'' @ swiftPath @ ''\" -q'') [],
              SetFailed (''Swift installer failed with exit code: '' @ show_int code)], Inr ())
      else
        (t @ [LogDebug ''Running installer'', Exec (''\"'' @ swiftPath @ ''\" -q'') [],
              AddPath (swiftInstallPath e)] @ map AddPath (additionalPaths e) @
             [LogDebug (''Swift installed at \"'' @ swiftInstallPath e @ ''\"'')] @
             fst (setupRequiredTools e pkg),
         snd (setupRequiredTools e pkg)))"
  using assms by (simp add: install_def exec_plain_def action_defs)

text \<open>The same, from the exit code of the installer's process.\<close>

lemma install_after_exit:
  assumes "os_platform e = ''win32''"
    and "swiftPackage e ver system = Inr pkg"
    and "cache_gate e pkg ver system = (t, Inr swiftPath)"
    and "exit_code (exec e (''\"'' @ swiftPath @ ''\" -q'') []) = Inr code"
  shows "install e ver system =
     (if code \<noteq> 0 then
        (t @ [LogDebug ''Running installer'', Exec (''\"'' @ swiftPath @ ''\" -q'') []],
         Inl (process_failed (exec e (''\"'' @ swiftPath @ ''\" -q'') []) code))
      else if fs_existsSync e (swiftInstallPath e) then
        (t @ [LogDebug ''Running installer'', Exec (''\"'' @ swiftPath @ ''\" -q'') [],
              AddPath (swiftInstallPath e)] @ map AddPath (additionalPaths e) @
             [LogDebug (''Swift installed at \"'' @ swiftInstallPath e @ ''\"'')] @
             fst (setupRequiredTools e pkg),
         snd (setupRequiredTools e pkg))
      else
        (t @ [LogDebug ''Running installer'', Exec (''\"'' @ swiftPath @ ''\" -q'') [],
              SetFailed ''Swift installer failed with exit code: 0''], Inr ()))"
proof (cases "code = 0")
  case True
  with assms(4) have "status (exec e (''\"'' @ swiftPath @ ''\" -q'') []) = Inr 0"
    by (simp add: status_zero)
  from install_after_gate [OF assms(1-3) this] True show ?thesis
    by (simp add: show_int_def digits.simps)
next
  case False
  with assms(4) have "status (exec e (''\"'' @ swiftPath @ ''\" -q'') []) =
      Inl (process_failed (exec e (''\"'' @ swiftPath @ ''\" -q'') []) code)"
    by (simp add: status_nonzero)
  with assms(1-3) False show ?thesis
    by (simp add: install_def exec_plain_def action_defs)
qed

text \<open>The three ways in which \<^verbatim>\<open>getVsToolsPath\<close> finds the query tool, and its check.\<close>

lemma getVsToolsPath_cases:
  "getVsToolsPath e =
     (if truthy (process_env e ''VSWHERE_PATH'') then
        (let tool = path_join e [js_string (process_env e ''VSWHERE_PATH''), ''vswhere.exe''] in
         if fs_existsSync e tool then
           ([LogDebug (''Using given vswhere-path: '' @ js_string (process_env e ''VSWHERE_PATH''))],
            Inr tool)
         else
           ([LogDebug (''Using given vswhere-path: '' @ js_string (process_env e ''VSWHERE_PATH'')),
             SetFailed ''Action requires the path to where vswhere.exe exists''], Inl (Error [])))
      else
        (case io_which e ''vswhere'' of
           Inr tool \<Rightarrow>
             if fs_existsSync e tool then
               ([Which ''vswhere'', LogDebug (''Found tool in PATH: '' @ tool)], Inr tool)
             else
               ([Which ''vswhere'', LogDebug (''Found tool in PATH: '' @ tool),
                 SetFailed ''Action requires the path to where vswhere.exe exists''], Inl (Error []))
         | Inl _ \<Rightarrow>
             (case process_env e ''ProgramFiles(x86)'' of
                None \<Rightarrow>
                  ([Which ''vswhere''], Inl (TypeError ''The \"path\" argument must be of type string''))
              | Some programFiles \<Rightarrow>
                  (let tool = path_join e
                        [programFiles, bsl ''Microsoft Visual Studio|Installer|vswhere.exe''] in
                   if fs_existsSync e tool then
                     ([Which ''vswhere'', LogDebug (''Trying Visual Studio-installed path: '' @ tool)],
                      Inr tool)
                   else
                     ([Which ''vswhere'', LogDebug (''Trying Visual Studio-installed path: '' @ tool),
                       SetFailed ''Action requires the path to where vswhere.exe exists''],
                      Inl (Error []))))))"
  by (simp add: getVsToolsPath_def Let_def action_defs split: sum.splits option.splits)

lemma getVsToolsPath_ok_quiet:
  "snd (getVsToolsPath e) = Inr w \<Longrightarrow> \<not> list_ex is_SetFailed (fst (getVsToolsPath e))"
  by (auto simp: getVsToolsPath_cases Let_def split: sum.splits option.splits if_splits)

lemma list_ex_LogError [simp]: "\<not> list_ex is_SetFailed (map LogError xs)"
  by (induction xs) simp_all


lemma setupRequiredTools_stops:
  "snd (getVsToolsPath e) = Inl err \<Longrightarrow>
   setupRequiredTools e pkg = (fst (getVsToolsPath e), Inl err)"
  by (cases "getVsToolsPath e") (simp add: setupRequiredTools_def)

text \<open>A string trims to nothing exactly when it consists of white space.\<close>

lemma trim_empty_iff: "trim s = [] \<longleftrightarrow> list_all is_space s"
proof
  assume "trim s = []"
  then have "dropWhile is_space (rev (dropWhile is_space s)) = []"
    by (simp add: trim_def)
  then have all: "\<forall>x \<in> set (dropWhile is_space s). is_space x"
    by simp
  have "dropWhile is_space s = []"
  proof (rule ccontr)
    assume ne: "dropWhile is_space s \<noteq> []"
    then have "\<not> is_space (hd (dropWhile is_space s))"
      by (rule hd_dropWhile)
    moreover from ne have "hd (dropWhile is_space s) \<in> set (dropWhile is_space s)"
      by simp
    ultimately show False using all by blast
  qed
  then show "list_all is_space s"
    by (simp add: list_all_iff)
next
  assume "list_all is_space s"
  then have "dropWhile is_space s = []"
    by (simp add: list_all_iff)
  then show "trim s = []"
    by (simp only: trim_def rev.simps dropWhile.simps)
qed

text \<open>The cache is read in one place only.\<close>

lemma fetch_installer_find [simp]:
  "fetch_installer (e\<lparr>toolCache_find := f\<rparr>) pkg ver system = fetch_installer e pkg ver system"
  by (simp add: fetch_installer_def download_def)

lemma setupRequiredTools_find [simp]:
  "setupRequiredTools (e\<lparr>toolCache_find := f\<rparr>) pkg = setupRequiredTools e pkg"
  by (simp add: setupRequiredTools_def getVsToolsPath_def setupSupportFiles_def copy_args_def
      exec_plain_def exec_capture_def
      cong: sum.case_cong option.case_cong prod.case_cong if_cong)

lemma cache_gate_miss:
  assumes "toolCache_find e (''swift-'' @ System.name system) ver = r"
    and "r = None \<or> (\<exists>s. r = Some s \<and> list_all is_space s)"
  shows "cache_gate e pkg ver system =
     (Find (''swift-'' @ System.name system) ver # fst (fetch_installer e pkg ver system),
      snd (fetch_installer e pkg ver system))"
  using assms by (auto simp: cache_gate_def await_def trim_empty_iff)

lemma cache_gate_hit:
  assumes "toolCache_find e (''swift-'' @ System.name system) ver = Some s"
    and "\<not> list_all is_space s"
  shows "cache_gate e pkg ver system =
     ([Find (''swift-'' @ System.name system) ver, LogDebug ''Cached installer found''], Inr s)"
  using assms by (simp add: cache_gate_def action_defs trim_empty_iff)

text \<open>The runs of \<^verbatim>\<open>fetch_installer\<close>, by the first step that fails.\<close>

lemma fetch_installer_cases:
  "fetch_installer e pkg ver system =
     (case gpg_setupKeys e of
        Inl err \<Rightarrow> ([LogDebug ''No cached installer found'', SetupKeys], Inl err)
      | Inr _ \<Rightarrow>
          (let started =
                 [LogDebug ''No cached installer found'', SetupKeys,
                  LogDebug ''Downloading Swift for windows'',
                  DownloadTool (url pkg), DownloadTool (url pkg @ ''.sig'')]
           in case toolCache_downloadTool e (url pkg) of
                Inl err \<Rightarrow> (started, Inl err)
              | Inr exe \<Rightarrow>
                  (case toolCache_downloadTool e (url pkg @ ''.sig'') of
                     Inl err \<Rightarrow> (started, Inl err)
                   | Inr signature \<Rightarrow>
                       (let verified =
                              started @ [LogDebug ''Swift download complete'', Verify signature exe]
                        in case gpg_verify e signature exe of
                             Inl err \<Rightarrow> (verified, Inl err)
                           | Inr _ \<Rightarrow>
                               (let cached =
                                      verified @
                                      [CacheFile exe (Package.name pkg)
                                         (''swift-'' @ System.name system) ver]
                                in case toolCache_cacheFile e exe (Package.name pkg)
                                          (''swift-'' @ System.name system) ver of
                                     Inl err \<Rightarrow> (cached, Inl err)
                                   | Inr exePath \<Rightarrow>
                                       (cached, Inr (path_join e [exePath, Package.name pkg])))))))"
  by (simp add: fetch_installer_def download_def promise_all2_def action_defs Let_def
      split: sum.splits)

text \<open>Nothing is verified after the installer has been located.\<close>

lemma list_ex_Verify_LogError [simp]: "\<not> list_ex is_Verify (map LogError xs)"
  by (induction xs) simp_all

lemma getVsToolsPath_no_Verify: "\<not> list_ex is_Verify (fst (getVsToolsPath e))"
  by (auto simp: getVsToolsPath_cases Let_def split: sum.splits option.splits)

lemma setupSupportFiles_no_Verify: "\<not> list_ex is_Verify (fst (setupSupportFiles e pkg p))"
  by (auto simp: setupSupportFiles_trace split: sum.splits bool.splits)

lemma setupRequiredTools_no_Verify: "\<not> list_ex is_Verify (fst (setupRequiredTools e pkg))"
  using getVsToolsPath_no_Verify [of e]
  by (auto simp: setupRequiredTools_def Let_def fst_io_bind snd_io_bind exec_capture_def
      exec_plain_def io_then_def action_defs setupSupportFiles_no_Verify
      split: sum.splits option.splits prod.splits)

lemma install_run:
  assumes "os_platform e = ''win32''"
    and "swiftPackage e ver system = Inr pkg"
    and "cache_gate e pkg ver system = (t, r)"
  shows "\<exists>rest. \<not> list_ex is_Verify rest \<and>
           fst (install e ver system) =
             t @ (case r of
                    Inl _ \<Rightarrow> []
                  | Inr p \<Rightarrow> LogDebug ''Running installer'' # Exec (''\"'' @ p @ ''\" -q'') [] # rest)"
proof (cases r)
  case (Inl err)
  with assms show ?thesis
    by (intro exI [of _ "[]"]) (simp add: install_def lift_def)
next
  case (Inr p)
  show ?thesis
  proof (cases "status (exec e (''\"'' @ p @ ''\" -q'') [])")
    case (Inl err)
    with assms Inr have "fst (install e ver system) =
        t @ [LogDebug ''Running installer'', Exec (''\"'' @ p @ ''\" -q'') []]"
      by (simp add: install_def exec_plain_def action_defs)
    with Inr show ?thesis
      by (intro exI [of _ "[]"]) simp
  next
    case code: (Inr code)
    have paths: "\<not> list_ex is_Verify (map AddPath ds)" for ds
      by (induction ds) simp_all
    show ?thesis
    proof (cases "code \<noteq> 0 \<or> \<not> fs_existsSync e (swiftInstallPath e)")
      case True
      with Inr show ?thesis
        using install_after_gate [OF assms(1,2) assms(3) [unfolded Inr] code]
        by (intro exI [of _ "[SetFailed (''Swift installer failed with exit code: '' @ show_int code)]"])
          simp
    next
      case False
      with Inr paths show ?thesis
        using install_after_gate [OF assms(1,2) assms(3) [unfolded Inr] code]
          setupRequiredTools_no_Verify [of e pkg]
        by (intro exI [of _ "AddPath (swiftInstallPath e) # map AddPath (additionalPaths e) @
              [LogDebug (''Swift installed at \"'' @ swiftInstallPath e @ ''\"'')] @
              fst (setupRequiredTools e pkg)"])
          simp
    qed
  qed
qed

subsection \<open>The platform guard\<close>

text \<open>
  C10. On a platform other than \<^verbatim>\<open>win32\<close>, \<^verbatim>\<open>install\<close> logs one error and returns,
  whatever the version and the system descriptor are. The run consists of that log
  call alone: the job is not marked failed, the cache is not read, nothing is
  downloaded, verified or executed, and no directory is added to \<^verbatim>\<open>PATH\<close>.
\<close>

theorem install_non_windows:
  "os_platform e \<noteq> ''win32'' \<Longrightarrow>
   install e ver system =
     ([LogError ''Trying to run windows installer on non-windows os''], Inr ())"
  by (simp add: install_def emit_def)

theorem install_non_windows_witness:
  "os_platform (env0\<lparr>os_platform := ''linux''\<rparr>) \<noteq> ''win32'' \<and>
   install (env0\<lparr>os_platform := ''linux''\<rparr>) ''5.5.0'' windows =
     ([LogError ''Trying to run windows installer on non-windows os''], Inr ())"
  using install_non_windows [of "env0\<lparr>os_platform := ''linux''\<rparr>" "''5.5.0''" windows]
  by (simp add: env0_def)

subsection \<open>The legacy support files\<close>

text \<open>
  C5. \<^verbatim>\<open>setupSupportFiles\<close> runs the copy command exactly when \<^verbatim>\<open>semver.lt\<close> finds the
  version of the package below 5.4.2, and does nothing at all otherwise. The command
  is \<^verbatim>\<open>cmd /c\<close> with one argument: the \<^verbatim>\<open>vcvars32.bat\<close> script of the installation,
  followed by the four copies of the module maps and of the API notes. With a
  \<^verbatim>\<open>semver.lt\<close> that puts 5.4.1 below 5.4.2, and neither 5.4.2 nor 5.5.0, version 5.4.1
  runs the command and versions 5.4.2 and 5.5.0 do not.
\<close>

theorem legacy_patch_threshold:
  \<open>(Exec ''cmd /c''
       [''""'' @ path_join e [p, bsl ''VC|Auxiliary|Build|vcvars32.bat''] @
        bsl ''"&&copy /Y %SDKROOT%|usr|share|ucrt.modulemap "%UniversalCRTSdkDir%|Include|%UCRTVersion%|ucrt|module.modulemap"&&copy /Y %SDKROOT%|usr|share|visualc.modulemap "%VCToolsInstallDir%|include|module.modulemap"&&copy /Y %SDKROOT%|usr|share|visualc.apinotes "%VCToolsInstallDir%|include|visualc.apinotes"&&copy /Y %SDKROOT%|usr|share|winsdk.modulemap "%UniversalCRTSdkDir%|Include|%UCRTVersion%|um|module.modulemap""'']
     \<in> set (fst (setupSupportFiles e pkg p))) =
     (semver_lt e (Package.version pkg) ''5.4.2'' = Inr True)
   \<and> (fst (setupSupportFiles e pkg p) = []) =
       (semver_lt e (Package.version pkg) ''5.4.2'' \<noteq> Inr True)
   \<and> (semver_lt e ''5.4.1'' ''5.4.2'' = Inr True \<longrightarrow>
        hd (fst (setupSupportFiles e (pkg0 ''5.4.1'') p)) = Exec ''cmd /c'' (copy_args e p))
   \<and> (semver_lt e ''5.4.2'' ''5.4.2'' = Inr False \<longrightarrow>
        setupSupportFiles e (pkg0 ''5.4.2'') p = ([], Inr ()))
   \<and> (semver_lt e ''5.5.0'' ''5.4.2'' = Inr False \<longrightarrow>
        setupSupportFiles e (pkg0 ''5.5.0'') p = ([], Inr ()))\<close>
proof -
  have line: \<open>copy_args e p =
       [''""'' @ path_join e [p, bsl ''VC|Auxiliary|Build|vcvars32.bat''] @
        bsl ''"&&copy /Y %SDKROOT%|usr|share|ucrt.modulemap "%UniversalCRTSdkDir%|Include|%UCRTVersion%|ucrt|module.modulemap"&&copy /Y %SDKROOT%|usr|share|visualc.modulemap "%VCToolsInstallDir%|include|module.modulemap"&&copy /Y %SDKROOT%|usr|share|visualc.apinotes "%VCToolsInstallDir%|include|visualc.apinotes"&&copy /Y %SDKROOT%|usr|share|winsdk.modulemap "%UniversalCRTSdkDir%|Include|%UCRTVersion%|um|module.modulemap""'']\<close>
    by (simp add: copy_args_def copyCommands_def bsl_def)
  have runs: "(Exec ''cmd /c'' (copy_args e p) \<in> set (fst (setupSupportFiles e q p))) =
     (semver_lt e (Package.version q) ''5.4.2'' = Inr True)" for q :: Package
    by (auto simp: setupSupportFiles_trace split: sum.splits bool.splits)
  have idle: "(fst (setupSupportFiles e q p) = []) =
     (semver_lt e (Package.version q) ''5.4.2'' \<noteq> Inr True)" for q :: Package
    by (auto simp: setupSupportFiles_trace split: sum.splits bool.splits)
  have first: "semver_lt e (Package.version q) ''5.4.2'' = Inr True \<Longrightarrow>
      hd (fst (setupSupportFiles e q p)) = Exec ''cmd /c'' (copy_args e p)" for q :: Package
    by (simp add: setupSupportFiles_trace)
  have none: "semver_lt e (Package.version q) ''5.4.2'' = Inr False \<Longrightarrow>
      setupSupportFiles e q p = ([], Inr ())" for q :: Package
    by (simp add: setupSupportFiles_def action_defs)
  have v: "Package.version (pkg0 x) = x" for x
    by (simp add: pkg0_def)
  show ?thesis
    using runs [of pkg] idle [of pkg] first [of "pkg0 ''5.4.1''"]
      none [of "pkg0 ''5.4.2''"] none [of "pkg0 ''5.5.0''"]
    unfolding v line by blast
qed

theorem legacy_patch_threshold_witness:
  \<open>setupSupportFiles env0 (pkg0 ''5.4.1'') ''VS'' =
     ([Exec ''cmd /c''
         [map (\<lambda>c. if c = CHR ''|'' then CHR 0x5C else c)
            ''""VS|VC|Auxiliary|Build|vcvars32.bat"&&copy /Y %SDKROOT%|usr|share|ucrt.modulemap "%UniversalCRTSdkDir%|Include|%UCRTVersion%|ucrt|module.modulemap"&&copy /Y %SDKROOT%|usr|share|visualc.modulemap "%VCToolsInstallDir%|include|module.modulemap"&&copy /Y %SDKROOT%|usr|share|visualc.apinotes "%VCToolsInstallDir%|include|visualc.apinotes"&&copy /Y %SDKROOT%|usr|share|winsdk.modulemap "%UniversalCRTSdkDir%|Include|%UCRTVersion%|um|module.modulemap""''],
       LogInfo ''Ran command for swift and exited with code: 0''], Inr ())
   \<and> setupSupportFiles env0 (pkg0 ''5.4.2'') ''VS'' = ([], Inr ())
   \<and> setupSupportFiles env0 (pkg0 ''5.5.0'') ''VS'' = ([], Inr ())\<close>
  using legacy_patch_threshold [of env0 "''VS''" "pkg0 ''5.4.1''"]
  by (simp add: run_defs env_defs semver_defs action_defs)

subsection \<open>The command line of the component installation\<close>

text \<open>
  C6. The command line that \<^verbatim>\<open>setupRequiredTools\<close> builds for the Visual Studio
  installer: the reduction over the components starts from the first component, so
  that component stands on the command line as it is, and only the components after
  it are passed with \<^verbatim>\<open>--add\<close>. For the two components of \<^verbatim>\<open>vsRequirement\<close> the
  command line has one \<^verbatim>\<open>--add\<close>, not two.
\<close>

theorem modify_command_first_component_bare:
  \<open>vsInstallerExec \<lparr> VsRequirement.version = v, components = c # cs \<rparr> p =
     Inr (''modify  --installPath "'' @ p @ ''" '' @ c @
          concat (map (\<lambda>x. '' --add "'' @ x @ ''"'') cs) @ '' --quiet'')\<close>
proof -
  have "foldl (\<lambda>previous current. previous @ '' --add '' @ CHR 0x22 # current @ [CHR 0x22]) a cs =
        a @ concat (map (\<lambda>x. '' --add '' @ CHR 0x22 # x @ [CHR 0x22]) cs)" for a
    by (induction cs arbitrary: a) simp_all
  then show ?thesis
    by (simp add: vsInstallerExec_def js_reduce_def)
qed

theorem modify_command_first_component_bare_witness:
  \<open>vsInstallerExec (vsRequirement (pkg0 ''5.5.0'')) ''VS'' =
     Inr ''modify  --installPath "VS" Microsoft.VisualStudio.Component.VC.Tools.x86.x64 --add "Microsoft.VisualStudio.Component.Windows10SDK.17763" --quiet''\<close>
  using modify_command_first_component_bare
    [of "''16''" "''Microsoft.VisualStudio.Component.VC.Tools.x86.x64''"
        "[''Microsoft.VisualStudio.Component.Windows10SDK.17763'']" "''VS''"]
  by (simp add: vsRequirement_def)

subsection \<open>The decision after the installer has run\<close>

text \<open>
  C2, as the claim states it, fails: with the expected directory present and the
  installer exiting with 1, the call that ran the installer is rejected and the run
  ends with that exception. No directory is registered and nothing follows.
\<close>

theorem nonzero_exit_with_directory_fails:
  \<open>fs_existsSync (env_hit\<lparr>exec := exits_with 1\<rparr>) (swiftInstallPath (env_hit\<lparr>exec := exits_with 1\<rparr>)) \<and>
   install (env_hit\<lparr>exec := exits_with 1\<rparr>) ''5.5.0'' windows =
     ([Find ''swift-windows'' ''5.5.0'', LogDebug ''Cached installer found'',
       LogDebug ''Running installer'', Exec ''"cached.exe" -q'' []],
      Inl (Error (''The process '' @ [CHR 0x27] @ bsl ''C:|work|cached.exe'' @ [CHR 0x27] @
                  '' failed with exit code 1'')))\<close>
  by (simp add: run_defs env_defs action_defs)

text \<open>
  C2, amended. On Windows, once the package is resolved, the installer located and its
  process has exited with a code: with the code 0 and the expected directory present
  the run goes on (it registers the directories and provisions the build tools); with
  the code 0 and the directory absent the run is marked failed, with a message that
  carries the code, and returns; with any other code, whether the directory is present
  or not, the call that ran the installer is rejected with an error that carries the
  code, and the run ends with that exception before the directory is looked at.
\<close>

theorem post_install_decision:
  assumes "os_platform e = ''win32''"
    and "swiftPackage e ver system = Inr pkg"
    and "cache_gate e pkg ver system = (t, Inr swiftPath)"
    and "exit_code (exec e (''\"'' @ swiftPath @ ''\" -q'') []) = Inr code"
  shows "install e ver system =
     (if code = 0 \<and> fs_existsSync e (swiftInstallPath e) then
        (t @ [LogDebug ''Running installer'', Exec (''\"'' @ swiftPath @ ''\" -q'') [],
              AddPath (swiftInstallPath e)] @ map AddPath (additionalPaths e) @
             [LogDebug (''Swift installed at \"'' @ swiftInstallPath e @ ''\"'')] @
             fst (setupRequiredTools e pkg),
         snd (setupRequiredTools e pkg))
      else if code = 0 then
        (t @ [LogDebug ''Running installer'', Exec (''\"'' @ swiftPath @ ''\" -q'') [],
              SetFailed ''Swift installer failed with exit code: 0''], Inr ())
      else
        (t @ [LogDebug ''Running installer'', Exec (''\"'' @ swiftPath @ ''\" -q'') []],
         Inl (process_failed (exec e (''\"'' @ swiftPath @ ''\" -q'') []) code)))"
  using install_after_exit [OF assms] by simp

theorem post_install_decision_witness:
  \<open>install (env_hit\<lparr>fs_existsSync := (\<lambda>_. False)\<rparr>) ''5.5.0'' windows =
     ([Find ''swift-windows'' ''5.5.0'', LogDebug ''Cached installer found'',
       LogDebug ''Running installer'', Exec ''"cached.exe" -q'' [],
       SetFailed ''Swift installer failed with exit code: 0''], Inr ())
   \<and> snd (install (env_hit\<lparr>exec := exits_with 3\<rparr>) ''5.5.0'' windows) =
       Inl (Error (''The process '' @ [CHR 0x27] @ bsl ''C:|work|cached.exe'' @ [CHR 0x27] @
                   '' failed with exit code 3''))\<close>
  using post_install_decision
    [of "env_hit\<lparr>fs_existsSync := (\<lambda>_. False)\<rparr>" "''5.5.0''" windows "pkg0 ''5.5.0''"
        "[Find ''swift-windows'' ''5.5.0'', LogDebug ''Cached installer found'']" "''cached.exe''" 0]
    post_install_decision
    [of "env_hit\<lparr>exec := exits_with 3\<rparr>" "''5.5.0''" windows "pkg0 ''5.5.0''"
        "[Find ''swift-windows'' ''5.5.0'', LogDebug ''Cached installer found'']" "''cached.exe''" 3]
  by (simp add: cache_gate_def trim_def is_space_def env_defs action_defs process_failed_def
      show_int_def digits.simps bsl_def)

subsection \<open>Registration on PATH\<close>

text \<open>
  C7. When the installer has exited with 0 and the expected directory exists, the run
  registers the binary directory of the toolchain first and then the additional
  directories in the order of their declaration, and registers nothing else. Every
  registration puts one directory in front of \<^verbatim>\<open>PATH\<close>: the entries that were there
  before are all still there, in their order, behind the new ones.
\<close>

theorem path_registration:
  assumes "os_platform e = ''win32''"
    and "swiftPackage e ver system = Inr pkg"
    and "cache_gate e pkg ver system = (t, Inr swiftPath)"
    and "status (exec e (''\"'' @ swiftPath @ ''\" -q'') []) = Inr 0"
    and "fs_existsSync e (swiftInstallPath e)"
  shows "added_paths (fst (install e ver system)) = swiftInstallPath e # additionalPaths e
       \<and> path_after (fst (install e ver system)) p =
           rev (swiftInstallPath e # additionalPaths e) @ p"
proof -
  have "added_paths t = []"
    using cache_gate_no_paths [of e pkg ver system] assms(3) by simp
  then have "added_paths (fst (install e ver system)) = swiftInstallPath e # additionalPaths e"
    using install_after_gate [OF assms(1-4)] assms(5)
    by (simp add: setupRequiredTools_no_paths)
  then show ?thesis
    by (simp add: path_after_added)
qed

theorem path_registration_witness:
  \<open>added_paths (fst (install env_hit ''5.5.0'' windows)) =
     [bsl ''C:|Library|Developer|Toolchains|unknown-Asserts-development.xctoolchain|usr|bin'',
      bsl ''C:|Library|Swift-development|bin'',
      bsl ''C:|Library|icu-67|usr|bin'']
   \<and> path_after (fst (install env_hit ''5.5.0'' windows)) [''C:/Windows''] =
     [bsl ''C:|Library|icu-67|usr|bin'',
      bsl ''C:|Library|Swift-development|bin'',
      bsl ''C:|Library|Developer|Toolchains|unknown-Asserts-development.xctoolchain|usr|bin'',
      ''C:/Windows'']\<close>
  using path_registration
    [of env_hit "''5.5.0''" windows "pkg0 ''5.5.0''"
        "[Find ''swift-windows'' ''5.5.0'', LogDebug ''Cached installer found'']" "''cached.exe''"
        "[''C:/Windows'']"]
  by (simp add: cache_gate_def trim_def is_space_def env_defs action_defs status_def
      swiftInstallPath_def swiftLibPath_def additionalPaths_def bsl_def)

subsection \<open>A failing copy command\<close>



subsection \<open>The result of the query\<close>

text \<open>
  C3. When the query tool prints an empty list, \<^verbatim>\<open>setupRequiredTools\<close> reads
  \<^verbatim>\<open>installationPath\<close> of the missing first record: the function ends with a
  \<^verbatim>\<open>TypeError\<close>, and the message that names the required version is never issued.
\<close>

theorem empty_query_result_throws:
  assumes "getVsToolsPath e = (t, Inr vswhereExe)"
    and "exec e (''\"'' @ vswhereExe @ ''\" -products * -format json -utf8 -latest -version \"16\"'') [] = r"
    and "status r = Inr code"
    and "JSON_parse e (concat (stdout r)) = Inr []"
  shows "snd (setupRequiredTools e pkg) =
           Inl (TypeError ''Cannot read properties of undefined (reading installationPath)'')
       \<and> \<not> list_ex is_SetFailed (fst (setupRequiredTools e pkg))"
proof -
  have "\<not> list_ex is_SetFailed t"
    using getVsToolsPath_ok_quiet [of e vswhereExe] assms(1) by simp
  then show ?thesis
    using assms
    by (simp add: setupRequiredTools_def vsRequirement_def exec_capture_def first_def action_defs)
qed

theorem empty_query_result_throws_witness:
  "snd (setupRequiredTools env_no_installation (pkg0 ''5.5.0'')) =
           Inl (TypeError ''Cannot read properties of undefined (reading installationPath)'')
       \<and> \<not> list_ex is_SetFailed (fst (setupRequiredTools env_no_installation (pkg0 ''5.5.0'')))"
  using empty_query_result_throws
    [of env_no_installation
        "[Which ''vswhere'', LogDebug (''Found tool in PATH: '' @ bsl ''C:|bin|vswhere.exe'')]"
        "bsl ''C:|bin|vswhere.exe''"
        "\<lparr> toolPath = bsl ''C:|bin|vswhere.exe'', stdout = [''[]''], stderr = [],
           exit_code = Inr 0 \<rparr>"
        0 "pkg0 ''5.5.0''"]
  by (simp add: getVsToolsPath_cases truthy_def status_def env_defs bsl_def)

text \<open>
  The other half of the claim holds: a first record without an installation path (or
  with an empty one) marks the run failed, and the message names the version.
\<close>

lemma missing_installation_path_fails:
  assumes "getVsToolsPath e = (t, Inr vswhereExe)"
    and "exec e (''\"'' @ vswhereExe @ ''\" -products * -format json -utf8 -latest -version \"16\"'') [] = r"
    and "status r = Inr code"
    and "JSON_parse e (concat (stdout r)) = Inr (vs # others)"
    and "\<not> truthy (installationPath vs)"
  shows "snd (setupRequiredTools e pkg) = Inr ()
       \<and> last (fst (setupRequiredTools e pkg)) =
           SetFailed ''Unable to find any visual studio installation for version: 16.''"
  using assms
  by (simp add: setupRequiredTools_def vsRequirement_def exec_capture_def first_def action_defs)

subsection \<open>Locating the query tool\<close>

text \<open>
  C8, as the claim states it, fails: only the query tool is looked for. On a runner
  where \<^verbatim>\<open>vswhere.exe\<close> exists in the override directory and no other file exists
  (neither a \<^verbatim>\<open>vs_installer.exe\<close> beside it nor the setup engine that the query
  reports), \<^verbatim>\<open>getVsToolsPath\<close> returns the tool, and the provisioning goes on: it runs
  the query and then tries to run the setup engine. The run is never marked failed with
  a message; it ends when the engine cannot be started.
\<close>

theorem missing_modify_engine_not_checked:
  \<open>\<not> fs_existsSync env_vswhere_only
         (path_join env_vswhere_only [bsl ''C:|tools'', ''vs_installer.exe''])
   \<and> \<not> fs_existsSync env_vswhere_only ''setup.exe''
   \<and> getVsToolsPath env_vswhere_only =
       ([LogDebug (''Using given vswhere-path: '' @ bsl ''C:|tools'')],
        Inr (bsl ''C:|tools|vswhere.exe''))
   \<and> setupRequiredTools env_vswhere_only (pkg0 ''5.5.0'') =
       ([LogDebug (''Using given vswhere-path: '' @ bsl ''C:|tools''),
         Exec (''"'' @ bsl ''C:|tools|vswhere.exe'' @
               ''" -products * -format json -utf8 -latest -version "16"'') [],
         LogInfo (''got payload: '' @ json0),
         LogInfo (''array: '' @ json0),
         LogInfo (''obj: '' @ object0),
         Exec ''"setup.exe" modify  --installPath "VS" Microsoft.VisualStudio.Component.VC.Tools.x86.x64 --add "Microsoft.VisualStudio.Component.Windows10SDK.17763" --quiet'' []],
        Inl (unable_to_locate ''setup.exe''))\<close>
  by (simp add: run_defs env_defs action_defs)

text \<open>
  C8, amended. The query tool is \<^verbatim>\<open>vswhere.exe\<close> in the directory that
  \<^verbatim>\<open>VSWHERE_PATH\<close> names when that variable is set and not empty; otherwise the
  \<^verbatim>\<open>vswhere\<close> found on the search path; otherwise, with \<^verbatim>\<open>ProgramFiles(x86)\<close> set, the
  fixed file under the directory that it names. When the tool exists at that place it
  is returned and nothing is marked failed. When it does not, the run is marked failed
  with the message about \<^verbatim>\<open>vswhere.exe\<close>, an exception leaves the function, and
  \<^verbatim>\<open>setupRequiredTools\<close> ends with it before any process is run. The modify engine is
  not looked for.
\<close>

theorem query_tool_resolution:
  assumes "tool =
      (if truthy (process_env e ''VSWHERE_PATH'') then
         path_join e [js_string (process_env e ''VSWHERE_PATH''), ''vswhere.exe'']
       else case io_which e ''vswhere'' of
              Inr found \<Rightarrow> found
            | Inl _ \<Rightarrow> path_join e [programFiles, bsl ''Microsoft Visual Studio|Installer|vswhere.exe''])"
    and "truthy (process_env e ''VSWHERE_PATH'') \<or> \<not> isl (io_which e ''vswhere'')
         \<or> process_env e ''ProgramFiles(x86)'' = Some programFiles"
  shows "if fs_existsSync e tool then
           snd (getVsToolsPath e) = Inr tool
           \<and> \<not> list_ex is_SetFailed (fst (getVsToolsPath e))
         else
           snd (getVsToolsPath e) = Inl (Error [])
           \<and> last (fst (getVsToolsPath e)) =
               SetFailed ''Action requires the path to where vswhere.exe exists''
           \<and> setupRequiredTools e pkg = (fst (getVsToolsPath e), Inl (Error []))
           \<and> \<not> list_ex is_Exec (fst (setupRequiredTools e pkg))"
proof -
  consider (override) "truthy (process_env e ''VSWHERE_PATH'')"
    | (on_path) found where "\<not> truthy (process_env e ''VSWHERE_PATH'')"
        and "io_which e ''vswhere'' = Inr found"
    | (fallback) err where "\<not> truthy (process_env e ''VSWHERE_PATH'')"
        and "io_which e ''vswhere'' = Inl err"
    by (cases "io_which e ''vswhere''") auto
  then have key: "\<exists>pre. \<not> list_ex is_SetFailed pre \<and> \<not> list_ex is_Exec pre \<and>
      getVsToolsPath e =
        (if fs_existsSync e tool then (pre, Inr tool)
         else (pre @ [SetFailed ''Action requires the path to where vswhere.exe exists''],
               Inl (Error [])))"
  proof cases
    case override
    then show ?thesis
      using assms(1) by (simp add: getVsToolsPath_cases Let_def)
  next
    case on_path
    then show ?thesis
      using assms(1) by (simp add: getVsToolsPath_cases Let_def)
  next
    case fallback
    with assms(2) have "process_env e ''ProgramFiles(x86)'' = Some programFiles"
      by simp
    with fallback show ?thesis
      using assms(1) by (simp add: getVsToolsPath_cases Let_def)
  qed
  then obtain pre where pre: "\<not> list_ex is_SetFailed pre" "\<not> list_ex is_Exec pre"
    and run: "getVsToolsPath e =
        (if fs_existsSync e tool then (pre, Inr tool)
         else (pre @ [SetFailed ''Action requires the path to where vswhere.exe exists''],
               Inl (Error [])))"
    by blast
  show ?thesis
  proof (cases "fs_existsSync e tool")
    case True
    with pre run show ?thesis by simp
  next
    case False
    with run have stopped: "snd (getVsToolsPath e) = Inl (Error [])"
      by simp
    from stopped have "setupRequiredTools e pkg = (fst (getVsToolsPath e), Inl (Error []))"
      by (rule setupRequiredTools_stops)
    with False pre run show ?thesis by simp
  qed
qed

theorem query_tool_resolution_witness:
  "snd (getVsToolsPath (env0\<lparr>fs_existsSync := (\<lambda>_. False)\<rparr>)) = Inl (Error [])
   \<and> setupRequiredTools (env0\<lparr>fs_existsSync := (\<lambda>_. False)\<rparr>) (pkg0 ''5.5.0'') =
       ([Which ''vswhere'', LogDebug (''Found tool in PATH: '' @ bsl ''C:|bin|vswhere.exe''),
         SetFailed ''Action requires the path to where vswhere.exe exists''], Inl (Error []))
   \<and> snd (getVsToolsPath env_vswhere_only) = Inr (bsl ''C:|tools|vswhere.exe'')"
  using query_tool_resolution
    [of "bsl ''C:|bin|vswhere.exe''" "env0\<lparr>fs_existsSync := (\<lambda>_. False)\<rparr>" "''''" "pkg0 ''5.5.0''"]
    query_tool_resolution
    [of "bsl ''C:|tools|vswhere.exe''" env_vswhere_only "''''" "pkg0 ''5.5.0''"]
  by (simp add: getVsToolsPath_cases truthy_def js_string_def env_defs bsl_def)

subsection \<open>The cache gate\<close>

text \<open>
  C4. Whatever \<^verbatim>\<open>toolCache.find\<close> returns for the key of the run: when it is
  \<^verbatim>\<open>null\<close>, empty or made of white space only, the run is the run of an
  environment whose cache finds nothing, and the gate goes on to fetch the installer;
  when it is anything else, the gate takes it as the cached installer, and it is not
  empty after trimming.
\<close>

theorem blank_cache_path_is_a_miss:
  assumes "toolCache_find e (''swift-'' @ System.name system) ver = r"
  shows "((r = None \<or> (\<exists>s. r = Some s \<and> list_all is_space s)) \<longrightarrow>
            install e ver system = install (e\<lparr>toolCache_find := (\<lambda>_ _. None)\<rparr>) ver system
          \<and> cache_gate e pkg ver system =
              (Find (''swift-'' @ System.name system) ver # fst (fetch_installer e pkg ver system),
               snd (fetch_installer e pkg ver system)))
       \<and> (\<forall>s. r = Some s \<and> \<not> list_all is_space s \<longrightarrow>
            trim s \<noteq> []
          \<and> cache_gate e pkg ver system =
              ([Find (''swift-'' @ System.name system) ver, LogDebug ''Cached installer found''],
               Inr s))"
proof (intro conjI impI allI)
  assume blank: "r = None \<or> (\<exists>s. r = Some s \<and> list_all is_space s)"
  have same: "cache_gate (e\<lparr>toolCache_find := (\<lambda>_ _. None)\<rparr>) q ver system = cache_gate e q ver system"
    for q
    using cache_gate_miss [OF assms blank, of q]
    by (simp add: cache_gate_def await_def)
  show "install e ver system = install (e\<lparr>toolCache_find := (\<lambda>_ _. None)\<rparr>) ver system"
    by (simp add: install_def same exec_plain_def swiftInstallPath_def swiftLibPath_def
        additionalPaths_def cong: sum.case_cong option.case_cong prod.case_cong if_cong)
  show "cache_gate e pkg ver system =
      (Find (''swift-'' @ System.name system) ver # fst (fetch_installer e pkg ver system),
       snd (fetch_installer e pkg ver system))"
    using assms blank by (rule cache_gate_miss)
next
  fix s
  assume hit: "r = Some s \<and> \<not> list_all is_space s"
  then show "trim s \<noteq> []"
    by (simp add: trim_empty_iff)
  from hit assms show "cache_gate e pkg ver system =
      ([Find (''swift-'' @ System.name system) ver, LogDebug ''Cached installer found''], Inr s)"
    by (simp add: cache_gate_hit)
qed

theorem blank_cache_path_is_a_miss_witness:
  "install (env0\<lparr>toolCache_find := (\<lambda>_ _. Some ''  '')\<rparr>) ''5.5.0'' windows =
     install (env0\<lparr>toolCache_find := (\<lambda>_ _. Some ''  ''), toolCache_find := (\<lambda>_ _. None)\<rparr>)
       ''5.5.0'' windows
   \<and> trim ''cached.exe'' \<noteq> []
   \<and> cache_gate env_hit (pkg0 ''5.5.0'') ''5.5.0'' windows =
       ([Find ''swift-windows'' ''5.5.0'', LogDebug ''Cached installer found''], Inr ''cached.exe'')"
  using blank_cache_path_is_a_miss
      [of "env0\<lparr>toolCache_find := (\<lambda>_ _. Some ''  '')\<rparr>" windows "''5.5.0''" "Some ''  ''"
          "pkg0 ''5.5.0''"]
    blank_cache_path_is_a_miss
      [of env_hit windows "''5.5.0''" "Some ''cached.exe''" "pkg0 ''5.5.0''"]
  by (simp add: is_space_def env_defs trim_def)

subsection \<open>Verification before use\<close>

text \<open>
  C1. In a run on Windows that finds no installer in the cache, nothing is put into the
  cache and no process is run before \<^verbatim>\<open>setupKeys\<close> has been called, nor before
  \<^verbatim>\<open>verify\<close> has been called; what is verified is the signature file downloaded from
  the package's address with \<^verbatim>\<open>.sig\<close> appended, against the installer downloaded from
  the package's address; and when \<^verbatim>\<open>verify\<close> or \<^verbatim>\<open>setupKeys\<close> fails (the promise
  is rejected), the run caches nothing and runs no process at all. (In the two older
  revisions the call of \<^verbatim>\<open>verify\<close> is a comment after the caching; the statement is
  about the newest one.)
\<close>

theorem verified_before_use:
  assumes "os_platform e = ''win32''"
    and "toolCache_find e (''swift-'' @ System.name system) ver = r"
    and "r = None \<or> (\<exists>s. r = Some s \<and> trim s = [])"
  shows "precedes (\<lambda>x. x = SetupKeys) uses_installer (fst (install e ver system))
       \<and> precedes is_Verify uses_installer (fst (install e ver system))
       \<and> (\<forall>signature exe. Verify signature exe \<in> set (fst (install e ver system)) \<longrightarrow>
            (\<exists>pkg. swiftPackage e ver system = Inr pkg
               \<and> toolCache_downloadTool e (url pkg) = Inr exe
               \<and> toolCache_downloadTool e (url pkg @ ''.sig'') = Inr signature)
            \<and> (isl (gpg_verify e signature exe) \<longrightarrow>
                 \<not> list_ex uses_installer (fst (install e ver system))))
       \<and> (isl (gpg_setupKeys e) \<longrightarrow> \<not> list_ex uses_installer (fst (install e ver system)))"
proof (cases "swiftPackage e ver system")
  case (Inl err)
  with assms(1) have "install e ver system = ([], Inl err)"
    by (simp add: install_def lift_def)
  then show ?thesis by simp
next
  case (Inr pkg)
  obtain tf rf where fetch: "fetch_installer e pkg ver system = (tf, rf)"
    by (cases "fetch_installer e pkg ver system")
  with assms(2,3) have gate: "cache_gate e pkg ver system =
      (Find (''swift-'' @ System.name system) ver # tf, rf)"
    by (auto simp: cache_gate_def await_def)
  from install_run [OF assms(1) Inr gate] obtain rest
    where rest: "\<not> list_ex is_Verify rest"
      and run: "fst (install e ver system) =
        (Find (''swift-'' @ System.name system) ver # tf) @
        (case rf of
           Inl _ \<Rightarrow> []
         | Inr p \<Rightarrow> LogDebug ''Running installer'' # Exec (''\"'' @ p @ ''\" -q'') [] # rest)"
    by blast
  from rest have no_verify: "Verify a b \<notin> set rest" for a b
    by (auto simp: list_ex_iff)
  show ?thesis
    using fetch Inr no_verify unfolding run
    by (auto simp: fetch_installer_cases Let_def uses_installer_def split: sum.splits)
qed

theorem verified_before_use_witness:
  "install env_bad_signature ''5.5.0'' windows =
     ([Find ''swift-windows'' ''5.5.0'', LogDebug ''No cached installer found'', SetupKeys,
       LogDebug ''Downloading Swift for windows'',
       DownloadTool ''https://swift.org/5.5.0'', DownloadTool ''https://swift.org/5.5.0.sig'',
       LogDebug ''Swift download complete'',
       Verify ''tmp/https://swift.org/5.5.0.sig'' ''tmp/https://swift.org/5.5.0''],
      Inl (Error ''BAD signature''))
   \<and> \<not> list_ex uses_installer (fst (install env_bad_signature ''5.5.0'' windows))
   \<and> precedes is_Verify uses_installer (fst (install env0 ''5.5.0'' windows))
   \<and> list_ex uses_installer (fst (install env0 ''5.5.0'' windows))"
proof -
  have bad: "install env_bad_signature ''5.5.0'' windows =
     ([Find ''swift-windows'' ''5.5.0'', LogDebug ''No cached installer found'', SetupKeys,
       LogDebug ''Downloading Swift for windows'',
       DownloadTool ''https://swift.org/5.5.0'', DownloadTool ''https://swift.org/5.5.0.sig'',
       LogDebug ''Swift download complete'',
       Verify ''tmp/https://swift.org/5.5.0.sig'' ''tmp/https://swift.org/5.5.0''],
      Inl (Error ''BAD signature''))"
    by (simp add: install_def cache_gate_def fetch_installer_cases env_defs trim_def action_defs)
  have unused: "\<not> list_ex uses_installer (fst (install env_bad_signature ''5.5.0'' windows))"
    using verified_before_use [of env_bad_signature windows "''5.5.0''" "Some []"]
    unfolding bad by (simp add: env_defs trim_def)
  have ordered: "precedes is_Verify uses_installer (fst (install env0 ''5.5.0'' windows))"
    using verified_before_use [of env0 windows "''5.5.0''" "Some []"]
    by (simp add: env0_def trim_def)
  have gate: "cache_gate env0 (pkg0 ''5.5.0'') ''5.5.0'' windows =
     ([Find ''swift-windows'' ''5.5.0'', LogDebug ''No cached installer found'', SetupKeys,
       LogDebug ''Downloading Swift for windows'',
       DownloadTool ''https://swift.org/5.5.0'', DownloadTool ''https://swift.org/5.5.0.sig'',
       LogDebug ''Swift download complete'',
       Verify ''tmp/https://swift.org/5.5.0.sig'' ''tmp/https://swift.org/5.5.0'',
       CacheFile ''tmp/https://swift.org/5.5.0'' ''installer.exe'' ''swift-windows'' ''5.5.0''],
      Inr (path_join env0 [''cache'', ''installer.exe'']))"
    by (simp add: cache_gate_def fetch_installer_cases env_defs trim_def action_defs)
  have used: "list_ex uses_installer (fst (install env0 ''5.5.0'' windows))"
    using install_run [of env0 "''5.5.0''" windows "pkg0 ''5.5.0''", OF _ _ gate]
    by (auto simp: env0_def uses_installer_def)
  from bad unused ordered used show ?thesis
    by simp
qed

end
